theory Spec2Isabelle
  imports Complex_Main
begin

section \<open>Remote payloads and local rows\<close>

text \<open>
  The remote API answers with JSON objects, which the Python code reads with
  \<^verbatim>\<open>dict.get\<close>. A key the code reads with \<^verbatim>\<open>d.get(k)\<close> is an
  option: \<open>None\<close> stands for a key that is absent or \<^verbatim>\<open>null\<close> (Python's
  \<^verbatim>\<open>None\<close> in both cases). A key read with a default, \<^verbatim>\<open>d.get(k, dflt)\<close>,
  distinguishes the absent key from \<^verbatim>\<open>null\<close> and is a \<open>field\<close>.
  Payloads are typed as the remote schema types them: ids, titles and timestamps are
  strings, indices and repetition counts are integers, measurements are numbers.
\<close>

datatype exn = Exn string

datatype 'a field = Absent | Null | Val 'a

record workout_summary =
  ws_id :: "string option"
  ws_title :: "string option"
  ws_description :: "string option"
  ws_notes :: "string option"
  ws_start_time :: "string option"
  ws_end_time :: "string option"
  ws_created_at :: "string option"
  ws_updated_at :: "string option"

record set_payload =
  sp_index :: "int option"
  sp_type :: "string option"
  sp_weight_kg :: "real option"
  sp_reps :: "int option"
  sp_distance_meters :: "real option"
  sp_duration_seconds :: "int option"
  sp_rpe :: "real option"
  sp_custom_metric :: "string option"

record exercise_payload =
  ep_index :: "int option"
  ep_title :: "string option"
  ep_sets :: "set_payload list option"

record workout_detail =
  wd_exercises :: "exercise_payload list option"

record template =
  tp_title :: "string field"
  tp_type :: "string option"
  tp_primary_muscle_group :: "string field"
  tp_secondary_muscle_groups :: "string list field"

text \<open>Rows of the tables \<^verbatim>\<open>workouts\<close>, \<^verbatim>\<open>sets\<close> and \<^verbatim>\<open>exercises\<close>
  (\<^verbatim>\<open>models.py\<close>). The \<^verbatim>\<open>exercises\<close> table is keyed here by its unique
  \<^verbatim>\<open>exercise_title\<close>; its serial id and its \<^verbatim>\<open>created_at = NOW()\<close> column
  are wall-clock and sequence values and are left out of the row.\<close>

record workout_row =
  wr_id :: "string option"
  wr_title :: string
  wr_notes :: string
  wr_started_at :: "string option"
  wr_ended_at :: "string option"
  wr_created_at :: "string option"
  wr_updated_at :: "string option"

record set_row =
  sr_id :: string
  sr_workout_id :: string
  sr_exercise_index :: "int option"
  sr_set_index :: "int option"
  sr_exercise_title :: string
  sr_type :: "string option"
  sr_weight_kg :: "real option"
  sr_reps :: "int option"
  sr_distance_meters :: "real option"
  sr_duration_seconds :: "int option"
  sr_rpe :: "real option"
  sr_custom_metric :: "string option"

record exercise_row =
  er_type :: "string option"
  er_primary_muscle_group :: "string option"
  er_secondary_muscle_group :: "string option"

section \<open>Python string helpers\<close>

text \<open>\<^verbatim>\<open>x or d\<close> on an optional string: \<^verbatim>\<open>None\<close> and the empty string are falsy.\<close>

definition truthy :: "string option \<Rightarrow> bool" where
  "truthy x = (case x of None \<Rightarrow> False | Some s \<Rightarrow> s \<noteq> [])"

definition or_str :: "string option \<Rightarrow> string \<Rightarrow> string" where
  "or_str x d = (case x of None \<Rightarrow> d | Some s \<Rightarrow> if s = [] then d else s)"

text \<open>\<^verbatim>\<open>str\<close> of an integer, and of an optional integer as an f-string formats it
  (\<^verbatim>\<open>None\<close> prints as the four letters \<^verbatim>\<open>None\<close>).\<close>

definition digit_char :: "nat \<Rightarrow> char" where
  "digit_char d = ''0123456789'' ! d"

function str_nat :: "nat \<Rightarrow> string" where
  "str_nat n = (if n < 10 then [digit_char n] else str_nat (n div 10) @ [digit_char (n mod 10)])"
  by pat_completeness auto
termination
  by (relation "measure id") auto

definition str_int :: "int \<Rightarrow> string" where
  "str_int i = (if i < 0 then CHR ''-'' # str_nat (nat (- i)) else str_nat (nat i))"

definition fmt_index :: "int option \<Rightarrow> string" where
  "fmt_index x = (case x of None \<Rightarrow> ''None'' | Some i \<Rightarrow> str_int i)"

section \<open>mappers.py\<close>

definition to_workout_row :: "workout_summary \<Rightarrow> workout_row" where
  "to_workout_row w =
     (let title = or_str (ws_title w) ''Workout'';
          notes = (if truthy (ws_description w) then the (ws_description w)
                   else or_str (ws_notes w) '''')
      in \<lparr> wr_id = ws_id w,
           wr_title = title,
           wr_notes = notes,
           wr_started_at = ws_start_time w,
           wr_ended_at = ws_end_time w,
           wr_created_at = ws_created_at w,
           wr_updated_at = ws_updated_at w \<rparr>)"

text \<open>The derived id of a set row: the f-string
  \<^verbatim>\<open>f"{workout_id}:{ex_idx}:{s_idx}"\<close>.\<close>

definition set_id :: "string \<Rightarrow> int option \<Rightarrow> int option \<Rightarrow> string" where
  "set_id workout_id ex_idx s_idx =
     workout_id @ '':'' @ fmt_index ex_idx @ '':'' @ fmt_index s_idx"

definition to_set_row :: "string \<Rightarrow> int option \<Rightarrow> string \<Rightarrow> set_payload \<Rightarrow> set_row" where
  "to_set_row workout_id ex_idx ex_title s =
     (let s_idx = sp_index s
      in \<lparr> sr_id = set_id workout_id ex_idx s_idx,
           sr_workout_id = workout_id,
           sr_exercise_index = ex_idx,
           sr_set_index = s_idx,
           sr_exercise_title = ex_title,
           sr_type = sp_type s,
           sr_weight_kg = sp_weight_kg s,
           sr_reps = sp_reps s,
           sr_distance_meters = sp_distance_meters s,
           sr_duration_seconds = sp_duration_seconds s,
           sr_rpe = sp_rpe s,
           sr_custom_metric = sp_custom_metric s \<rparr>)"

text \<open>\<^verbatim>\<open>d.get(k) or []\<close>: an absent or null collection is the empty list.\<close>

definition or_empty :: "'a list option \<Rightarrow> 'a list" where
  "or_empty x = (case x of None \<Rightarrow> [] | Some xs \<Rightarrow> xs)"

definition exercise_rows :: "string \<Rightarrow> exercise_payload \<Rightarrow> set_row list" where
  "exercise_rows workout_id ex =
     (let ex_idx = ep_index ex;
          ex_title = or_str (ep_title ex) ''''
      in map (to_set_row workout_id ex_idx ex_title) (or_empty (ep_sets ex)))"

definition to_set_rows :: "string \<Rightarrow> workout_detail \<Rightarrow> set_row list" where
  "to_set_rows workout_id workout_detail =
     concat (map (exercise_rows workout_id) (or_empty (wd_exercises workout_detail)))"

section \<open>The environment: remote source and store\<close>

text \<open>
  Every call that leaves the process (a request to the remote API, a statement sent to
  the database, the begin and the commit of a transaction) is recorded, in order, in
  the trace \<open>calls\<close>. The environment answers a call as a function of the call's
  arguments and of the number of calls made before it, so that any behaviour of the
  remote source and of the store over one run, raising included, is an environment.
  A remote function answers \<open>Inl e\<close> when the request raises (\<^verbatim>\<open>raise_for_status\<close>,
  a transport error); \<open>db_fault\<close> says whether a store call raises.
\<close>

datatype call =
    ListWorkouts nat nat
  | GetWorkout string
  | ListExerciseTemplates nat nat
  | DbBegin
  | DbCommit
  | SelectWorkoutIds
  | DeleteSets "string set"
  | DeleteWorkouts "string set"
  | UpsertWorkout workout_row
  | InsertSets "set_row list"
  | DeleteExercises
  | UpsertExercise string exercise_row

record env =
  list_workouts :: "nat \<Rightarrow> nat \<Rightarrow> nat \<Rightarrow> exn + workout_summary list option"
  get_workout :: "nat \<Rightarrow> string \<Rightarrow> exn + workout_detail"
  list_exercise_templates :: "nat \<Rightarrow> nat \<Rightarrow> nat \<Rightarrow> exn + template list option"
  db_fault :: "nat \<Rightarrow> exn option"

record world =
  tbl_workouts :: "string \<rightharpoonup> workout_row"
  tbl_sets :: "string \<rightharpoonup> set_row"
  tbl_exercises :: "string \<rightharpoonup> exercise_row"
  calls :: "call list"

definition log_call :: "call \<Rightarrow> world \<Rightarrow> world" where
  "log_call c w = w\<lparr>calls := calls w @ [c]\<rparr>"

text \<open>hevy\_client.py: the three requests. The second component is the world with the
  request recorded.\<close>

definition hevy_list_workouts ::
  "env \<Rightarrow> nat \<Rightarrow> nat \<Rightarrow> world \<Rightarrow> (exn + workout_summary list option) \<times> world" where
  "hevy_list_workouts env page page_size w =
     (list_workouts env (length (calls w)) page page_size, log_call (ListWorkouts page page_size) w)"

definition hevy_get_workout :: "env \<Rightarrow> string \<Rightarrow> world \<Rightarrow> (exn + workout_detail) \<times> world" where
  "hevy_get_workout env workout_id w =
     (get_workout env (length (calls w)) workout_id, log_call (GetWorkout workout_id) w)"

definition hevy_list_exercise_templates ::
  "env \<Rightarrow> nat \<Rightarrow> nat \<Rightarrow> world \<Rightarrow> (exn + template list option) \<times> world" where
  "hevy_list_exercise_templates env page page_size w =
     (list_exercise_templates env (length (calls w)) page page_size,
      log_call (ListExerciseTemplates page page_size) w)"

text \<open>A store call: recorded, and raising when the environment says so. A statement
  that raises leaves the tables as they were.\<close>

definition db_call :: "env \<Rightarrow> call \<Rightarrow> world \<Rightarrow> exn option \<times> world" where
  "db_call env c w = (db_fault env (length (calls w)), log_call c w)"

text \<open>db.py, \<^verbatim>\<open>get_db\<close>: a transaction that commits when its block ends and rolls
  back when an exception leaves the block. \<open>rollback w0 w\<close> puts the tables back to what
  they were in \<open>w0\<close>, when the transaction began; the trace is kept.\<close>

definition rollback :: "world \<Rightarrow> world \<Rightarrow> world" where
  "rollback w0 w = w\<lparr> tbl_workouts := tbl_workouts w0,
                      tbl_sets := tbl_sets w0,
                      tbl_exercises := tbl_exercises w0 \<rparr>"

section \<open>repo.py\<close>

definition normalize_workout_params :: "workout_row \<Rightarrow> workout_row" where
  "normalize_workout_params wr =
     wr\<lparr> wr_title := or_str (Some (wr_title wr)) ''Workout'',
         wr_notes := or_str (Some (wr_notes wr)) '''' \<rparr>"

text \<open>\<^verbatim>\<open>INSERT ... ON CONFLICT (id) DO UPDATE\<close>: every column of the row is replaced.
  The primary key is not nullable, so a row without an id is refused by the store.\<close>

definition upsert_workout :: "env \<Rightarrow> workout_row \<Rightarrow> world \<Rightarrow> (exn + unit) \<times> world" where
  "upsert_workout env wr w =
     (let params = normalize_workout_params wr in
      case db_call env (UpsertWorkout params) w of
        (Some e, w1) \<Rightarrow> (Inl e, w1)
      | (None, w1) \<Rightarrow>
          (case wr_id params of
             None \<Rightarrow> (Inl (Exn ''null value in column id violates not-null constraint''), w1)
           | Some i \<Rightarrow> (Inr (), w1\<lparr>tbl_workouts := (tbl_workouts w1)(i \<mapsto> params)\<rparr>)))"

text \<open>\<^verbatim>\<open>INSERT ... ON CONFLICT (id) DO NOTHING\<close>, one row after the other: a row whose
  id is already in the table is skipped.\<close>

definition insert_set_if_absent :: "set_row \<Rightarrow> (string \<rightharpoonup> set_row) \<Rightarrow> (string \<rightharpoonup> set_row)" where
  "insert_set_if_absent r t = (if t (sr_id r) = None then t(sr_id r \<mapsto> r) else t)"

definition insert_sets_bulk :: "env \<Rightarrow> set_row list \<Rightarrow> world \<Rightarrow> (exn + nat) \<times> world" where
  "insert_sets_bulk env rows w =
     (if rows = [] then (Inr 0, w)
      else case db_call env (InsertSets rows) w of
             (Some e, w1) \<Rightarrow> (Inl e, w1)
           | (None, w1) \<Rightarrow>
               (Inr (length rows), w1\<lparr>tbl_sets := fold insert_set_if_absent rows (tbl_sets w1)\<rparr>))"

section \<open>exercise\_sync.py\<close>

text \<open>\<^verbatim>\<open>str.strip()\<close> removes leading and trailing whitespace; these are the
  whitespace characters of Python below code point 256.\<close>

definition is_space :: "char \<Rightarrow> bool" where
  "is_space c = ((of_char c :: nat) \<in> {9, 10, 11, 12, 13, 28, 29, 30, 31, 32, 133, 160})"

definition strip :: "string \<Rightarrow> string" where
  "strip s = rev (dropWhile is_space (rev (dropWhile is_space s)))"

fun join :: "string \<Rightarrow> string list \<Rightarrow> string" where
  "join sep [] = []"
| "join sep [x] = x"
| "join sep (x # y # ys) = x @ sep @ join sep (y # ys)"

record exercise_sync_result =
  es_status :: string
  es_message :: string
  es_imported_count :: nat
  es_total_templates :: nat

text \<open>The pagination of the catalog: at most 100 pages of 100 templates; an empty
  page or a request that raises ends it.\<close>

function fetch_templates :: "env \<Rightarrow> nat \<Rightarrow> template list \<Rightarrow> world \<Rightarrow> template list \<times> world" where
  "fetch_templates env page all_templates w =
     (case hevy_list_exercise_templates env page 100 w of
        (Inl e, w1) \<Rightarrow> (all_templates, w1)
      | (Inr response, w1) \<Rightarrow>
          (let templates = or_empty response in
           if templates = [] then (all_templates, w1)
           else if page + 1 > 100 then (all_templates @ templates, w1)
           else fetch_templates env (page + 1) (all_templates @ templates) w1))"
  by pat_completeness auto
termination
  by (relation "measure (\<lambda>(env, page, all_templates, w). 101 - page)") auto

declare fetch_templates.simps [simp del]

definition secondary_muscle_group :: "string list field \<Rightarrow> string option" where
  "secondary_muscle_group x =
     (case x of Absent \<Rightarrow> Some (join '', '' [])
              | Null \<Rightarrow> None
              | Val groups \<Rightarrow> Some (join '', '' groups))"

definition primary_muscle :: "string field \<Rightarrow> string option" where
  "primary_muscle x = (case x of Absent \<Rightarrow> Some [] | Null \<Rightarrow> None | Val s \<Rightarrow> Some s)"

text \<open>The insert loop. A template whose title is \<^verbatim>\<open>null\<close> makes
  \<^verbatim>\<open>.strip()\<close> raise; a blank title is skipped.\<close>

fun import_templates :: "env \<Rightarrow> template list \<Rightarrow> nat \<Rightarrow> world \<Rightarrow> (exn + nat) \<times> world" where
  "import_templates env [] imported_count w = (Inr imported_count, w)"
| "import_templates env (template # rest) imported_count w =
     (case tp_title template of
        Null \<Rightarrow>
          (Inl (Exn (CHR 0x27 # ''NoneType'' @ CHR 0x27 # '' object has no attribute ''
                     @ CHR 0x27 # ''strip'' @ [CHR 0x27])), w)
      | title \<Rightarrow>
          (let exercise_title = strip (case title of Val t \<Rightarrow> t | _ \<Rightarrow> []) in
           if exercise_title = [] then import_templates env rest imported_count w
           else
             let row = \<lparr> er_type = tp_type template,
                         er_primary_muscle_group = primary_muscle (tp_primary_muscle_group template),
                         er_secondary_muscle_group =
                           secondary_muscle_group (tp_secondary_muscle_groups template) \<rparr>
             in case db_call env (UpsertExercise exercise_title row) w of
                  (Some e, w1) \<Rightarrow> (Inl e, w1)
                | (None, w1) \<Rightarrow>
                    import_templates env rest (imported_count + 1)
                      (w1\<lparr>tbl_exercises := (tbl_exercises w1)(exercise_title \<mapsto> row)\<rparr>)))"

definition sync_failed :: "exn \<Rightarrow> exercise_sync_result" where
  "sync_failed e =
     (case e of Exn msg \<Rightarrow>
        \<lparr> es_status = ''error'',
          es_message = ''Sync failed: '' @ msg,
          es_imported_count = 0,
          es_total_templates = 0 \<rparr>)"

definition sync_exercise_templates :: "env \<Rightarrow> world \<Rightarrow> exercise_sync_result \<times> world" where
  "sync_exercise_templates env w =
     (case fetch_templates env 1 [] w of (all_templates, w1) \<Rightarrow>
      if all_templates = [] then
        (\<lparr> es_status = ''error'',
           es_message = ''No exercise templates found in Hevy API'',
           es_imported_count = 0,
           es_total_templates = 0 \<rparr>, w1)
      else
        (case db_call env DbBegin w1 of
           (Some e, w2) \<Rightarrow> (sync_failed e, w2)
         | (None, w2) \<Rightarrow>
        (case db_call env DeleteExercises w2 of
           (Some e, w3) \<Rightarrow> (sync_failed e, rollback w2 w3)
         | (None, w3) \<Rightarrow>
        (case import_templates env all_templates 0 (w3\<lparr>tbl_exercises := Map.empty\<rparr>) of
           (Inl e, w4) \<Rightarrow> (sync_failed e, rollback w2 w4)
         | (Inr imported_count, w4) \<Rightarrow>
        (case db_call env DbCommit w4 of
           (Some e, w5) \<Rightarrow> (sync_failed e, rollback w2 w5)
         | (None, w5) \<Rightarrow>
             (\<lparr> es_status = ''success'',
                es_message = ''Successfully imported '' @ str_nat imported_count
                             @ '' exercise templates from Hevy API'',
                es_imported_count = imported_count,
                es_total_templates = length all_templates \<rparr>, w5))))))"

section \<open>sync.py\<close>

record counters =
  seen :: nat
  upserted :: nat
  sets_total :: nat

record summary =
  sync_type :: string
  workouts_seen :: nat
  workouts_upserted :: nat
  sets_inserted :: nat
  workouts_deleted :: nat
  total_hevy_workouts :: nat
  total_local_before :: nat
  exercise_sync :: exercise_sync_result

text \<open>What one invocation does to its caller: it returns the summary, or an exception
  leaves it.\<close>

datatype outcome = Returned summary | Raised exn

text \<open>Step 1, the ids of one page: \<^verbatim>\<open>{w.get("id") for w in workouts if w.get("id")}\<close>.\<close>

definition page_ids :: "workout_summary list \<Rightarrow> string set" where
  "page_ids workouts = set (map (\<lambda>w. the (ws_id w)) (filter (\<lambda>w. truthy (ws_id w)) workouts))"

text \<open>Step 1, the enumeration loop (\<^verbatim>\<open>while True\<close>, no bound on the number of
  pages): a run that never leaves the loop is the value \<open>None\<close>.\<close>

partial_function (option) enumerate_ids ::
  "env \<Rightarrow> nat \<Rightarrow> string set \<Rightarrow> world \<Rightarrow> (string set \<times> world) option" where
  "enumerate_ids env current_page hevy_workout_ids w =
     (case hevy_list_workouts env current_page 10 w of
        (Inl e, w1) \<Rightarrow> Some (hevy_workout_ids, w1)
      | (Inr raw, w1) \<Rightarrow>
          (let workouts = or_empty raw in
           if workouts = [] then Some (hevy_workout_ids, w1)
           else
             let ids = hevy_workout_ids \<union> page_ids workouts in
             if length workouts < 10 then Some (ids, w1)
             else enumerate_ids env (current_page + 1) ids w1))"

text \<open>Step 2, the deletions, in one transaction that is not inside any
  \<^verbatim>\<open>try\<close>: an exception of the store leaves the function. The result is
  \<^verbatim>\<open>workouts_deleted\<close> and \<^verbatim>\<open>local_workout_ids\<close>.\<close>

definition delete_removed :: "env \<Rightarrow> string set \<Rightarrow> world \<Rightarrow> (exn + nat \<times> string set) \<times> world" where
  "delete_removed env hevy_workout_ids w =
     (case db_call env DbBegin w of
        (Some e, w1) \<Rightarrow> (Inl e, w1)
      | (None, w1) \<Rightarrow>
     (case db_call env SelectWorkoutIds w1 of
        (Some e, w2) \<Rightarrow> (Inl e, rollback w1 w2)
      | (None, w2) \<Rightarrow>
          (let local_workout_ids = dom (tbl_workouts w2);
               workouts_to_delete = local_workout_ids - hevy_workout_ids
           in
           if workouts_to_delete = {} then
             (case db_call env DbCommit w2 of
                (Some e, w3) \<Rightarrow> (Inl e, rollback w1 w3)
              | (None, w3) \<Rightarrow> (Inr (0, local_workout_ids), w3))
           else
             (case db_call env (DeleteSets workouts_to_delete) w2 of
                (Some e, w3) \<Rightarrow> (Inl e, rollback w1 w3)
              | (None, w3) \<Rightarrow>
             (let w3' = w3\<lparr>tbl_sets := (\<lambda>i. case tbl_sets w3 i of
                                                None \<Rightarrow> None
                                              | Some r \<Rightarrow> if sr_workout_id r \<in> workouts_to_delete
                                                          then None else Some r)\<rparr>
              in
              case db_call env (DeleteWorkouts workouts_to_delete) w3' of
                (Some e, w4) \<Rightarrow> (Inl e, rollback w1 w4)
              | (None, w4) \<Rightarrow>
             (let w4' = w4\<lparr>tbl_workouts := (\<lambda>i. if i \<in> workouts_to_delete then None
                                                   else tbl_workouts w4 i)\<rparr>
              in
              case db_call env DbCommit w4' of
                (Some e, w5) \<Rightarrow> (Inl e, rollback w1 w5)
              | (None, w5) \<Rightarrow> (Inr (card workouts_to_delete, local_workout_ids), w5)))))))"

text \<open>Step 3, the body of \<^verbatim>\<open>for w in workouts\<close>: every \<^verbatim>\<open>continue\<close> and
  every swallowed exception is a branch that returns the counters as they are.\<close>

definition sync_workout :: "env \<Rightarrow> workout_summary \<Rightarrow> counters \<times> world \<Rightarrow> counters \<times> world" where
  "sync_workout env ws cw =
     (case cw of (c, w) \<Rightarrow>
      let c1 = c\<lparr>seen := seen c + 1\<rparr>;
          wr = to_workout_row ws;
          workout_id = wr_id wr
      in
      if \<not> truthy workout_id then (c1, w)
      else
        (case upsert_workout env wr w of
           (Inl e, w1) \<Rightarrow> (c1, w1)
         | (Inr u, w1) \<Rightarrow>
        (let c2 = c1\<lparr>upserted := upserted c1 + 1\<rparr> in
         case hevy_get_workout env (the workout_id) w1 of
           (Inl e, w2) \<Rightarrow> (c2, w2)
         | (Inr detail, w2) \<Rightarrow>
        (let set_rows = to_set_rows (the workout_id) detail in
         if set_rows = [] then (c2, w2)
         else
           (case insert_sets_bulk env set_rows w2 of
              (Inl e, w3) \<Rightarrow> (c2, w3)
            | (Inr n, w3) \<Rightarrow> (c2\<lparr>sets_total := sets_total c2 + length set_rows\<rparr>, w3))))))"

text \<open>Step 3, the loop over the pages (again \<^verbatim>\<open>while True\<close>): each page is
  processed in one transaction; an exception of \<^verbatim>\<open>get_db\<close> or of the commit is
  caught by the \<^verbatim>\<open>try\<close> around the page and ends the loop.\<close>

partial_function (option) upsert_pages ::
  "env \<Rightarrow> nat \<Rightarrow> counters \<Rightarrow> world \<Rightarrow> (counters \<times> world) option" where
  "upsert_pages env current_page c w =
     (case hevy_list_workouts env current_page 10 w of
        (Inl e, w1) \<Rightarrow> Some (c, w1)
      | (Inr raw, w1) \<Rightarrow>
          (let workouts = or_empty raw in
           if workouts = [] then Some (c, w1)
           else
             (case db_call env DbBegin w1 of
                (Some e, w2) \<Rightarrow> Some (c, w2)
              | (None, w2) \<Rightarrow>
                  (case fold (sync_workout env) workouts (c, w2) of (c', w3) \<Rightarrow>
                   (case db_call env DbCommit w3 of
                      (Some e, w4) \<Rightarrow> Some (c', rollback w2 w4)
                    | (None, w4) \<Rightarrow> upsert_pages env (current_page + 1) c' w4)))))"

text \<open>Steps 2 to 4 of \<^verbatim>\<open>sync_first_page\<close>, from the set of remote ids that step 1
  has collected, and then the function itself. Its parameters \<^verbatim>\<open>page\<close> and
  \<^verbatim>\<open>page_size\<close> are not read by its body.\<close>

definition sync_after_enumeration :: "env \<Rightarrow> string set \<Rightarrow> world \<Rightarrow> (outcome \<times> world) option" where
  "sync_after_enumeration env hevy_workout_ids w1 =
     (case delete_removed env hevy_workout_ids w1 of
        (Inl e, w2) \<Rightarrow> Some (Raised e, w2)
      | (Inr (deleted, local_workout_ids), w2) \<Rightarrow>
     (case upsert_pages env 1 \<lparr>seen = 0, upserted = 0, sets_total = 0\<rparr> w2 of
        None \<Rightarrow> None
      | Some (c, w3) \<Rightarrow>
     (case sync_exercise_templates env w3 of (exercise_sync_result, w4) \<Rightarrow>
        Some (Returned
               \<lparr> sync_type = ''unified_with_deletion'',
                 workouts_seen = seen c,
                 workouts_upserted = upserted c,
                 sets_inserted = sets_total c,
                 workouts_deleted = deleted,
                 total_hevy_workouts = card hevy_workout_ids,
                 total_local_before = card local_workout_ids,
                 exercise_sync = exercise_sync_result \<rparr>, w4))))"

definition sync_first_page :: "int \<Rightarrow> int \<Rightarrow> env \<Rightarrow> world \<Rightarrow> (outcome \<times> world) option" where
  "sync_first_page page page_size env w =
     (case enumerate_ids env 1 {} w of
        None \<Rightarrow> None
      | Some (hevy_workout_ids, w1) \<Rightarrow> sync_after_enumeration env hevy_workout_ids w1)"

section \<open>main.py, the route \<^verbatim>\<open>POST /sync/hevy\<close>\<close>

datatype http_result = Response summary | HTTPException nat string

definition sync_hevy :: "int \<Rightarrow> int \<Rightarrow> env \<Rightarrow> world \<Rightarrow> (http_result \<times> world) option" where
  "sync_hevy page page_size env w =
     (case sync_first_page page page_size env w of
        None \<Rightarrow> None
      | Some (Returned result, w') \<Rightarrow> Some (Response result, w')
      | Some (Raised (Exn msg), w') \<Rightarrow> Some (HTTPException 500 msg, w'))"

section \<open>Vocabulary of the statements\<close>

text \<open>\<open>full_pages_from env t p pages\<close>: from the moment \<open>t\<close> on, the remote source answers
  the requests for the pages \<open>p\<close>, \<open>p + 1\<close>, ... (ten per page), made one after the other,
  with the pages \<open>pages\<close>, none of which is shorter than ten workouts.
  \<open>page_requests p n\<close> are the requests for the \<open>n\<close> pages from page \<open>p\<close> on.\<close>

primrec full_pages_from :: "env \<Rightarrow> nat \<Rightarrow> nat \<Rightarrow> workout_summary list list \<Rightarrow> bool" where
  "full_pages_from env t p [] = True"
| "full_pages_from env t p (x # xs) =
     (list_workouts env t p 10 = Inr (Some x) \<and> 10 \<le> length x
      \<and> full_pages_from env (Suc t) (Suc p) xs)"

definition page_requests :: "nat \<Rightarrow> nat \<Rightarrow> call list" where
  "page_requests p n = map (\<lambda>j. ListWorkouts (p + j) 10) [0..<n]"

section \<open>Fixtures\<close>

text \<open>A workout detail whose only exercise has no index, and whose second set has no
  index either.\<close>

definition detail_without_index :: workout_detail where
  "detail_without_index =
     \<lparr> wd_exercises = Some
         [\<lparr> ep_index = None, ep_title = Some ''Squat'',
            ep_sets = Some [\<lparr> sp_index = Some 0, sp_type = Some ''normal'', sp_weight_kg = Some 60,
                              sp_reps = Some 5, sp_distance_meters = None,
                              sp_duration_seconds = None, sp_rpe = None,
                              sp_custom_metric = None \<rparr>,
                            \<lparr> sp_index = None, sp_type = None, sp_weight_kg = None,
                              sp_reps = None, sp_distance_meters = None,
                              sp_duration_seconds = None, sp_rpe = None,
                              sp_custom_metric = None \<rparr>] \<rparr>] \<rparr>"

text \<open>A workout summary with the given id, an empty store, and a remote source with a
  single workout on a single, short page.\<close>

definition summary_of :: "string \<Rightarrow> workout_summary" where
  "summary_of i =
     \<lparr> ws_id = Some i, ws_title = Some ''Leg day'', ws_description = None, ws_notes = None,
       ws_start_time = Some ''2024-05-01T10:00:00Z'', ws_end_time = Some ''2024-05-01T11:00:00Z'',
       ws_created_at = None, ws_updated_at = None \<rparr>"

definition empty_world :: world where
  "empty_world =
     \<lparr> tbl_workouts = Map.empty, tbl_sets = Map.empty, tbl_exercises = Map.empty, calls = [] \<rparr>"

definition no_exercises :: workout_detail where
  "no_exercises = \<lparr> wd_exercises = Some [] \<rparr>"

definition env_one_short_page :: env where
  "env_one_short_page =
     \<lparr> list_workouts = (\<lambda>t page page_size.
                           if page = 1 then Inr (Some [summary_of ''W1'']) else Inr (Some [])),
       get_workout = (\<lambda>t i. Inr no_exercises),
       list_exercise_templates = (\<lambda>t page page_size. Inr (Some [])),
       db_fault = (\<lambda>t. None) \<rparr>"

text \<open>A remote source whose first page is full (ten workouts) and whose second page
  cannot be fetched.\<close>

definition ten_workouts :: "workout_summary list" where
  "ten_workouts = map (\<lambda>n. summary_of (''W'' @ str_nat n)) [0..<10]"

definition env_fails_on_page2 :: env where
  "env_fails_on_page2 =
     \<lparr> list_workouts = (\<lambda>t page page_size.
                           if page = 1 then Inr (Some ten_workouts)
                           else Inl (Exn ''503 Service Unavailable'')),
       get_workout = (\<lambda>t i. Inr no_exercises),
       list_exercise_templates = (\<lambda>t page page_size. Inr (Some [])),
       db_fault = (\<lambda>t. None) \<rparr>"

section \<open>Unfolding the model\<close>

lemmas model_defs =
  sync_first_page_def sync_after_enumeration_def delete_removed_def sync_workout_def
  sync_exercise_templates_def hevy_list_workouts_def hevy_get_workout_def
  hevy_list_exercise_templates_def db_call_def log_call_def rollback_def
  upsert_workout_def insert_sets_bulk_def insert_set_if_absent_def normalize_workout_params_def
  to_workout_row_def to_set_rows_def exercise_rows_def to_set_row_def set_id_def fmt_index_def
  or_empty_def or_str_def truthy_def page_ids_def Let_def

section \<open>The enumeration loop\<close>

lemma page_requests_Suc: "page_requests p (Suc n) = ListWorkouts p 10 # page_requests (Suc p) n"
proof -
  have "[0..<Suc n] = 0 # map Suc [0..<n]"
    by (simp add: upt_conv_Cons map_Suc_upt del: upt_Suc)
  then show ?thesis by (simp add: page_requests_def comp_def del: upt_Suc)
qed

lemma page_requests_snoc: "page_requests p (Suc n) = page_requests p n @ [ListWorkouts (p + n) 10]"
  by (simp add: page_requests_def)

lemma enumerate_full_pages:
  "full_pages_from env (length (calls w)) p ps \<Longrightarrow>
   enumerate_ids env p ids w =
     enumerate_ids env (p + length ps) (ids \<union> \<Union>(set (map page_ids ps)))
       (w\<lparr>calls := calls w @ page_requests p (length ps)\<rparr>)"
proof (induction ps arbitrary: p ids w)
  case Nil
  then show ?case by (simp add: page_requests_def)
next
  case (Cons x xs)
  let ?w1 = "log_call (ListWorkouts p 10) w"
  from Cons.prems have a: "list_workouts env (length (calls w)) p 10 = Inr (Some x)"
    and b: "10 \<le> length x" and c: "full_pages_from env (length (calls ?w1)) (Suc p) xs"
    by (simp_all add: log_call_def)
  from b have nz: "x \<noteq> []" by auto
  have "enumerate_ids env p ids w = enumerate_ids env (Suc p) (ids \<union> page_ids x) ?w1"
    using a b nz by (subst enumerate_ids.simps) (simp add: hevy_list_workouts_def or_empty_def)
  also have "\<dots> = enumerate_ids env (Suc p + length xs)
                     ((ids \<union> page_ids x) \<union> \<Union>(set (map page_ids xs)))
                     (?w1\<lparr>calls := calls ?w1 @ page_requests (Suc p) (length xs)\<rparr>)"
    by (rule Cons.IH [OF c])
  finally show ?case
    by (simp add: page_requests_Suc log_call_def Un_assoc)
qed

lemma enumerate_fetch_raises:
  "list_workouts env (length (calls w)) p 10 = Inl e \<Longrightarrow>
   enumerate_ids env p ids w = Some (ids, log_call (ListWorkouts p 10) w)"
  by (subst enumerate_ids.simps) (simp add: hevy_list_workouts_def)

section \<open>The set mapper\<close>

text \<open>
  C6. The ids of the rows that \<^verbatim>\<open>to_set_rows\<close> produces are computed from the workout
  id and the two indices alone: the list of ids is the list of \<open>set_id\<close> of the indices of
  every set of every exercise, in order, whatever the other fields of the detail are, so
  every set has its row (an absent index included), and each row's id is \<open>set_id\<close> of the
  row's own three key columns. An absent index is printed as \<^verbatim>\<open>None\<close> in the id.
\<close>

theorem set_ids_deterministic:
  "map sr_id (to_set_rows workout_id d) =
     concat (map (\<lambda>ex. map (\<lambda>s. set_id workout_id (ep_index ex) (sp_index s)) (or_empty (ep_sets ex)))
                 (or_empty (wd_exercises d)))
   \<and> (\<forall>r \<in> set (to_set_rows workout_id d).
        sr_workout_id r = workout_id
        \<and> sr_id r = set_id workout_id (sr_exercise_index r) (sr_set_index r))
   \<and> set_id workout_id None None = workout_id @ '':None:None''
   \<and> set_id workout_id None (Some j) = workout_id @ '':None:'' @ str_int j
   \<and> set_id workout_id (Some i) None = workout_id @ '':'' @ str_int i @ '':None''"
  by (auto simp add: to_set_rows_def exercise_rows_def to_set_row_def map_concat comp_def
                     set_id_def fmt_index_def Let_def)

theorem set_ids_deterministic_witness:
  "to_set_rows ''W1'' detail_without_index \<noteq> []
   \<and> map sr_id (to_set_rows ''W1'' detail_without_index) = [''W1:None:0'', ''W1:None:None'']
   \<and> map sr_workout_id (to_set_rows ''W1'' detail_without_index) = [''W1'', ''W1'']"
  using set_ids_deterministic [of "''W1''" detail_without_index]
  by (simp add: detail_without_index_def or_empty_def to_set_rows_def exercise_rows_def
                to_set_row_def Let_def set_id_def fmt_index_def str_int_def digit_char_def)

section \<open>The parameters of the entrypoint\<close>

text \<open>
  C9. The arguments \<^verbatim>\<open>page\<close> and \<^verbatim>\<open>page_size\<close> of \<^verbatim>\<open>sync_first_page\<close> have no
  influence: two invocations that differ in them only, in the same environment and from
  the same world, have the same outcome, the same summary, the same tables and the same
  trace of requests and store calls.
\<close>

theorem page_arguments_ignored:
  "sync_first_page page page_size env w = sync_first_page page' page_size' env w"
  by (simp add: sync_first_page_def)

theorem page_arguments_ignored_witness:
  "sync_first_page 1 10 env_one_short_page empty_world
     = sync_first_page 7 3 env_one_short_page empty_world"
  using page_arguments_ignored [of 1 10 env_one_short_page empty_world 7 3] .

section \<open>A page that cannot be fetched during the enumeration\<close>

text \<open>
  C5. When the enumeration has fetched the full pages \<open>pages\<close> and the request for the next
  page raises, the loop ends there: its result is the ids it had (\<open>ids\<close>, at the start of
  the loop the empty set) together with the ids of \<open>pages\<close>, and the trace shows one request
  for each of these pages and one, not repeated, for the page that raised. The invocation
  goes on with steps 2 to 4 from exactly this set of ids; when the first page raises
  (\<open>pages = []\<close>), this set is empty.
\<close>

theorem enumeration_stops_at_failed_page:
  assumes "full_pages_from env (length (calls w)) p pages"
    and "list_workouts env (length (calls w) + length pages) (p + length pages) 10 = Inl e"
  shows "enumerate_ids env p ids w =
           Some (ids \<union> \<Union>(set (map page_ids pages)),
                 w\<lparr>calls := calls w @ page_requests p (Suc (length pages))\<rparr>)
         \<and> (p = 1 \<and> ids = {} \<longrightarrow>
              sync_first_page page page_size env w =
                sync_after_enumeration env (\<Union>(set (map page_ids pages)))
                  (w\<lparr>calls := calls w @ page_requests 1 (Suc (length pages))\<rparr>))
         \<and> (pages = [] \<longrightarrow> ids \<union> \<Union>(set (map page_ids pages)) = ids)"
proof -
  let ?w' = "w\<lparr>calls := calls w @ page_requests p (length pages)\<rparr>"
  have "enumerate_ids env p ids w =
          enumerate_ids env (p + length pages) (ids \<union> \<Union>(set (map page_ids pages))) ?w'"
    by (rule enumerate_full_pages [OF assms(1)])
  also have "\<dots> = Some (ids \<union> \<Union>(set (map page_ids pages)),
                        log_call (ListWorkouts (p + length pages) 10) ?w')"
    using assms(2) by (intro enumerate_fetch_raises [where e = e]) (simp add: page_requests_def)
  finally have e: "enumerate_ids env p ids w =
           Some (ids \<union> \<Union>(set (map page_ids pages)),
                 w\<lparr>calls := calls w @ page_requests p (Suc (length pages))\<rparr>)"
    by (simp add: log_call_def page_requests_snoc)
  show ?thesis using e by (auto simp add: sync_first_page_def)
qed

theorem enumeration_stops_at_failed_page_witness:
  "full_pages_from env_fails_on_page2 (length (calls empty_world)) 1 [ten_workouts]
   \<and> list_workouts env_fails_on_page2 1 2 10 = Inl (Exn ''503 Service Unavailable'')
   \<and> enumerate_ids env_fails_on_page2 1 {} empty_world =
       Some (page_ids ten_workouts, empty_world\<lparr>calls := [ListWorkouts 1 10, ListWorkouts 2 10]\<rparr>)
   \<and> sync_first_page 1 10 env_fails_on_page2 empty_world =
       sync_after_enumeration env_fails_on_page2 (page_ids ten_workouts)
         (empty_world\<lparr>calls := [ListWorkouts 1 10, ListWorkouts 2 10]\<rparr>)"
proof -
  have a: "full_pages_from env_fails_on_page2 (length (calls empty_world)) 1 [ten_workouts]"
    by (simp add: env_fails_on_page2_def ten_workouts_def)
  have b: "list_workouts env_fails_on_page2
             (length (calls empty_world) + length [ten_workouts]) (1 + length [ten_workouts]) 10
           = Inl (Exn ''503 Service Unavailable'')"
    by (simp add: env_fails_on_page2_def)
  have c: "page_requests 1 (Suc (length [ten_workouts])) = [ListWorkouts 1 10, ListWorkouts 2 10]"
    by (simp add: page_requests_def numeral_2_eq_2)
  have d: "list_workouts env_fails_on_page2 1 2 10 = Inl (Exn ''503 Service Unavailable'')"
    by (simp add: env_fails_on_page2_def)
  show ?thesis
    using a d enumeration_stops_at_failed_page [OF a b, of "{}" 1 10]
    unfolding c by (simp add: empty_world_def)
qed

section \<open>The short page in the upsert pass\<close>

text \<open>
  C4. The remote source holds one workout, so its first page is short (one workout for a
  page size of ten). The trace of the invocation: the enumeration asks for page 1 and
  stops at the short page; the upsert pass asks for page 1 again, processes it, and then
  asks for page 2 as well: its loop ends at an empty page (or at an exception) only.
\<close>

theorem short_page_trace:
  "map_option (\<lambda>r. calls (snd r)) (sync_first_page 1 10 env_one_short_page empty_world) =
     Some [ListWorkouts 1 10, DbBegin, SelectWorkoutIds, DbCommit,
           ListWorkouts 1 10, DbBegin,
           UpsertWorkout (to_workout_row (summary_of ''W1'')), GetWorkout ''W1'', DbCommit,
           ListWorkouts 2 10,
           ListExerciseTemplates 1 100]"
  by (simp add: model_defs enumerate_ids.simps upsert_pages.simps fetch_templates.simps
        env_one_short_page_def
        empty_world_def summary_of_def no_exercises_def)

end
